theory Spec2Isabelle
  imports Complex_Main
begin

section \<open>Arrays and errors\<close>

text \<open>
  The program (\<open>pms.py\<close>) works on numpy arrays of 64-bit floats.  A one-dimensional
  array is a list, a two-dimensional array a list of rows.  Floating-point numbers are
  modelled by the real numbers they approximate: rounding is not modelled, so every
  statement below is about the arithmetic the program asks for, carried out exactly.
  The IEEE special values that a division by zero produces are modelled where the
  program can reach them (type \<open>npfloat\<close> below).

  An exception of the source is a value \<open>Inl e\<close> of a sum type.
\<close>

type_synonym vec = "real list"
type_synonym mat = "real list list"

datatype error = ValueError | IndexError | KeyError | BdbQuit

text \<open>\<open>np.take(a, indices)\<close> on the first axis: an index outside the array raises
  \<open>IndexError\<close> (the indices of the source are non-negative literals).\<close>

definition np_take :: "'a list \<Rightarrow> nat list \<Rightarrow> error + 'a list" where
  "np_take a indices =
     (if list_all (\<lambda>i. i < length a) indices then Inr (map (\<lambda>i. a ! i) indices)
      else Inl IndexError)"

text \<open>\<open>a.reshape((r, c))\<close> of a flat array, row-major: \<open>ValueError\<close> when the sizes
  do not match.\<close>

definition reshape2 :: "nat \<Rightarrow> nat \<Rightarrow> 'a list \<Rightarrow> error + 'a list list" where
  "reshape2 r c a =
     (if length a = r * c then Inr (map (\<lambda>i. take c (drop (i * c) a)) [0..<r])
      else Inl ValueError)"

text \<open>\<open>np.transpose\<close> of a two-dimensional array with \<open>c\<close> columns.\<close>

definition np_transpose :: "nat \<Rightarrow> 'a list list \<Rightarrow> 'a list list" where
  "np_transpose c a = map (\<lambda>j. map (\<lambda>row. row ! j) a) [0..<c]"

text \<open>Well-formed two-dimensional array of shape \<open>(r, c)\<close>.\<close>

definition shape2 :: "nat \<Rightarrow> nat \<Rightarrow> 'a list list \<Rightarrow> bool" where
  "shape2 r c a = (length a = r \<and> list_all (\<lambda>row. length row = c) a)"


section \<open>Dense linear algebra on arrays\<close>

definition dot :: "vec \<Rightarrow> vec \<Rightarrow> real" where
  "dot u v = sum_list (map2 (\<lambda>x y. x * y) u v)"

definition col :: "nat \<Rightarrow> 'a list list \<Rightarrow> 'a list" where
  "col j a = map (\<lambda>row. row ! j) a"

definition ncols :: "'a list list \<Rightarrow> nat" where
  "ncols a = (case a of [] \<Rightarrow> 0 | row # _ \<Rightarrow> length row)"

text \<open>The matrix product \<open>a.dot(b)\<close> of two well-shaped arrays.\<close>

definition mmul :: "mat \<Rightarrow> mat \<Rightarrow> mat" where
  "mmul a b = map (\<lambda>row. map (\<lambda>j. dot row (col j b)) [0..<ncols b]) a"

text \<open>\<open>a.dot(b)\<close> as numpy runs it: the inner dimensions must agree.\<close>

definition np_dot :: "mat \<Rightarrow> mat \<Rightarrow> error + mat" where
  "np_dot a b =
     (if list_all (\<lambda>row. length row = length b) a then Inr (mmul a b) else Inl ValueError)"

definition tabulate2 :: "nat \<Rightarrow> nat \<Rightarrow> (nat \<Rightarrow> nat \<Rightarrow> 'a) \<Rightarrow> 'a list list" where
  "tabulate2 r c f = map (\<lambda>i. map (\<lambda>j. f i j) [0..<c]) [0..<r]"

text \<open>\<open>np.diag\<close> of a one-dimensional array.\<close>

definition np_diag :: "vec \<Rightarrow> mat" where
  "np_diag d = tabulate2 (length d) (length d) (\<lambda>i j. if i = j then d ! i else 0)"

text \<open>\<open>np.linalg.norm(a, axis=0)\<close> (one norm per column, of \<open>p\<close> columns) and
  \<open>np.linalg.norm(a, axis=1)\<close> (one norm per row): the square root of the sum of the
  squared absolute values.\<close>

definition norm_vec :: "vec \<Rightarrow> real" where
  "norm_vec v = sqrt (sum_list (map (\<lambda>x. \<bar>x\<bar>\<^sup>2) v))"

definition norm_axis0 :: "nat \<Rightarrow> mat \<Rightarrow> vec" where
  "norm_axis0 p a = map (\<lambda>j. norm_vec (col j a)) [0..<p]"

definition norm_axis1 :: "mat \<Rightarrow> vec" where
  "norm_axis1 a = map norm_vec a"

text \<open>\<open>np.vstack\<close> of a sequence of one-dimensional arrays: \<open>ValueError\<close> when the
  sequence is empty or the lengths differ.\<close>

definition vstack :: "vec list \<Rightarrow> error + mat" where
  "vstack rows =
     (case rows of
        [] \<Rightarrow> Inl ValueError
      | r # rs \<Rightarrow> if list_all (\<lambda>s. length s = length r) rs then Inr rows else Inl ValueError)"

definition ravel :: "'a list list \<Rightarrow> 'a list" where
  "ravel a = concat a"


section \<open>The linear-algebra library\<close>

text \<open>
  The routines of \<open>numpy.linalg\<close> that the program calls are not part of the program.
  They are parameters of the model: a record of functions, of which the theorems assume
  no more than the contract they state.
  \<^item> \<open>pinv\<close>: \<open>np.linalg.pinv\<close>, the Moore--Penrose pseudoinverse;
  \<^item> \<open>lstsq\<close>: the first component of \<open>np.linalg.lstsq\<close>, a least-squares solution;
  \<^item> \<open>svd\<close>: \<open>np.linalg.svd\<close>, returning \<open>(U, s, Vh)\<close>; the flag is \<open>full_matrices\<close>;
  \<^item> \<open>eigvals\<close> and \<open>eig\<close>: eigenvalues, and eigenvalues with the array whose columns
    are the eigenvectors.
\<close>

record linalg =
  pinv :: "mat \<Rightarrow> mat"
  lstsq :: "mat \<Rightarrow> mat \<Rightarrow> mat"
  svd :: "bool \<Rightarrow> mat \<Rightarrow> mat \<times> vec \<times> mat"
  eigvals :: "mat \<Rightarrow> vec"
  eig :: "mat \<Rightarrow> vec \<times> mat"

text \<open>The four Penrose equations, for an \<open>n\<close> by \<open>c\<close> matrix and its \<open>c\<close> by \<open>n\<close>
  pseudoinverse.\<close>

definition penrose :: "nat \<Rightarrow> nat \<Rightarrow> mat \<Rightarrow> mat \<Rightarrow> bool" where
  "penrose n c N Ni =
     (shape2 c n Ni \<and>
      mmul (mmul N Ni) N = N \<and>
      mmul (mmul Ni N) Ni = Ni \<and>
      np_transpose n (mmul N Ni) = mmul N Ni \<and>
      np_transpose c (mmul Ni N) = mmul Ni N)"


text \<open>Column rank 3 of an \<open>n\<close> by 3 matrix: its Gram matrix \<open>N\<^sup>T N\<close> is invertible.\<close>

definition det3 :: "mat \<Rightarrow> real" where
  "det3 g =
     g ! 0 ! 0 * (g ! 1 ! 1 * g ! 2 ! 2 - g ! 1 ! 2 * g ! 2 ! 1)
     - g ! 0 ! 1 * (g ! 1 ! 0 * g ! 2 ! 2 - g ! 1 ! 2 * g ! 2 ! 0)
     + g ! 0 ! 2 * (g ! 1 ! 0 * g ! 2 ! 1 - g ! 1 ! 1 * g ! 2 ! 0)"

definition gram :: "mat \<Rightarrow> mat" where
  "gram N = mmul (np_transpose 3 N) N"

definition column_rank3 :: "mat \<Rightarrow> bool" where
  "column_rank3 N = (det3 (gram N) \<noteq> 0)"

text \<open>The contract of \<open>np.linalg.svd(a)\<close> with full matrices, for an \<open>n\<close> by \<open>c\<close> array:
  \<open>a = U \<Sigma> Vh\<close> with orthogonal \<open>U\<close> and \<open>Vh\<close> and the singular values in descending
  order.  The right-singular vectors are the rows of \<open>Vh\<close>.\<close>

definition identity :: "nat \<Rightarrow> mat" where
  "identity n = tabulate2 n n (\<lambda>i j. if i = j then 1 else 0)"

definition orthogonal :: "nat \<Rightarrow> mat \<Rightarrow> bool" where
  "orthogonal n a = (shape2 n n a \<and> mmul a (np_transpose n a) = identity n)"

definition diag_rect :: "nat \<Rightarrow> nat \<Rightarrow> vec \<Rightarrow> mat" where
  "diag_rect n c s = tabulate2 n c (\<lambda>i j. if i = j \<and> i < length s then s ! i else 0)"

definition is_svd :: "nat \<Rightarrow> nat \<Rightarrow> mat \<Rightarrow> mat \<times> vec \<times> mat \<Rightarrow> bool" where
  "is_svd n c a usv =
     (case usv of (U, s, Vh) \<Rightarrow>
        orthogonal n U \<and> orthogonal c Vh \<and> length s = min n c \<and>
        list_all (\<lambda>x. 0 \<le> x) s \<and> sorted (rev s) \<and>
        mmul (mmul U (diag_rect n c s)) Vh = a)"


section \<open>The uncalibrated factorizer: the quadratic constraints\<close>

text \<open>
  Lines 90--94 of \<open>photometricStereoWithoutLightning\<close>, on the normalised pseudo-shape
  \<open>S\<close> (4 rows, one column per pixel):
  \<^verbatim>\<open>
    Q1 = np.take(S, (0, 1, 2, 3, 0, 0, 0, 1, 1, 2), axis=0)
    Q2 = np.take(S, (0, 1, 2, 3, 1, 2, 3, 2, 3, 3), axis=0)
    Q = Q1 * Q2
    Q[:,4:] *= 2
    Q = np.transpose(Q)
  \<close>
  \<open>Q1 * Q2\<close> is the elementwise product of two arrays of shape \<open>(10, n)\<close>;
  \<open>Q[:,4:] *= 2\<close> doubles, in every row, the entries from column 4 on.
\<close>

definition mul_elementwise :: "mat \<Rightarrow> mat \<Rightarrow> mat" where
  "mul_elementwise a b = map2 (\<lambda>r s. map2 (\<lambda>x y. x * y) r s) a b"

definition double_columns_from :: "nat \<Rightarrow> mat \<Rightarrow> mat" where
  "double_columns_from k a = map (\<lambda>row. take k row @ map (\<lambda>x. x * 2) (drop k row)) a"

definition construct_Q :: "nat \<Rightarrow> mat \<Rightarrow> error + mat" where
  "construct_Q n S =
     (case np_take S [0, 1, 2, 3, 0, 0, 0, 1, 1, 2] of
        Inl e \<Rightarrow> Inl e
      | Inr Q1 \<Rightarrow>
          (case np_take S [0, 1, 2, 3, 1, 2, 3, 2, 3, 3] of
             Inl e \<Rightarrow> Inl e
           | Inr Q2 \<Rightarrow>
               Inr (np_transpose n (double_columns_from 4 (mul_elementwise Q1 Q2)))))"

text \<open>The row of quadratic terms that the comment above line 90 of the source gives for
  a column \<open>q\<close> of \<open>S\<close>:
  \<open>(q\<^sub>1\<^sup>2, ..., q\<^sub>4\<^sup>2, 2 q\<^sub>1 q\<^sub>2, ..., 2 q\<^sub>3 q\<^sub>4)\<close>.\<close>

definition spec_Q_row :: "real \<Rightarrow> real \<Rightarrow> real \<Rightarrow> real \<Rightarrow> vec" where
  "spec_Q_row q1 q2 q3 q4 =
     [q1 * q1, q2 * q2, q3 * q3, q4 * q4,
      2 * q1 * q2, 2 * q1 * q3, 2 * q1 * q4, 2 * q2 * q3, 2 * q2 * q4, 2 * q3 * q4]"

text \<open>The ten products without any doubling.\<close>

definition products_row :: "real \<Rightarrow> real \<Rightarrow> real \<Rightarrow> real \<Rightarrow> vec" where
  "products_row q1 q2 q3 q4 =
     [q1 * q1, q2 * q2, q3 * q3, q4 * q4,
      q1 * q2, q1 * q3, q1 * q4, q2 * q3, q2 * q4, q3 * q4]"


section \<open>The uncalibrated factorizer: the symmetric matrix B\<close>

text \<open>
  Lines 100--104:
  \<^verbatim>\<open>
    b = VQ[:,9]
    B = np.take(b.flat, (0, 4, 5, 6,
                         4, 1, 7, 8,
                         5, 7, 2, 9,
                         6, 8, 9, 3)).reshape((4, 4))
  \<close>
\<close>

definition select_b :: "'a list list \<Rightarrow> error + 'a list" where
  "select_b VQ =
     (if list_all (\<lambda>row. 9 < length row) VQ then Inr (map (\<lambda>row. row ! 9) VQ)
      else Inl IndexError)"

definition assemble_B :: "'a list \<Rightarrow> error + 'a list list" where
  "assemble_B b =
     (case np_take b [0, 4, 5, 6, 4, 1, 7, 8, 5, 7, 2, 9, 6, 8, 9, 3] of
        Inl e \<Rightarrow> Inl e
      | Inr flat \<Rightarrow> reshape2 4 4 flat)"



section \<open>The uncalibrated factorizer: the matrix A\<close>

text \<open>
  Lines 107--120:
  \<^verbatim>\<open>
    B_eig = np.linalg.eigvals(B)
    B_eig_sn = np.sign(B_eig)
    nb_eig_sn_positive = np.sum(B_eig_sn[B_eig_sn>0])
    nb_eig_sn_negative = np.sum(np.abs(B_eig_sn[B_eig_sn<0]))
    if 1 in (nb_eig_sn_positive, nb_eig_sn_negative):
        if nb_eig_sn_positive == 1:
            B = -B
        Lambda, W = np.linalg.eig(B)
        Lambda = np.abs(np.diag(Lambda))
        A = np.sqrt( Lambda ).dot( W )
    else:
        UB, SB, VB = np.linalg.svd(B)
        A = UB.dot ( VB )
  \<close>
  The square root is taken of absolute values only, where it is the real square root.
\<close>

definition nb_eig_sn_positive :: "vec \<Rightarrow> real" where
  "nb_eig_sn_positive B_eig = sum_list (filter (\<lambda>s. 0 < s) (map sgn B_eig))"

definition nb_eig_sn_negative :: "vec \<Rightarrow> real" where
  "nb_eig_sn_negative B_eig = sum_list (map abs (filter (\<lambda>s. s < 0) (map sgn B_eig)))"

definition negate :: "mat \<Rightarrow> mat" where
  "negate B = map (map uminus) B"

definition sqrt_abs_diag :: "vec \<Rightarrow> mat" where
  "sqrt_abs_diag Lambda = map (map (\<lambda>x. sqrt \<bar>x\<bar>)) (np_diag Lambda)"

definition separable_branch :: "linalg \<Rightarrow> mat \<Rightarrow> bool" where
  "separable_branch la B =
     (nb_eig_sn_positive (eigvals la B) = 1 \<or> nb_eig_sn_negative (eigvals la B) = 1)"

definition flipped :: "linalg \<Rightarrow> mat \<Rightarrow> mat" where
  "flipped la B = (if nb_eig_sn_positive (eigvals la B) = 1 then negate B else B)"

definition construct_A :: "linalg \<Rightarrow> mat \<Rightarrow> error + mat" where
  "construct_A la B =
     (if separable_branch la B then
        (case eig la (flipped la B) of (Lambda, W) \<Rightarrow> np_dot (sqrt_abs_diag Lambda) W)
      else
        (case svd la True B of (UB, SB, VB) \<Rightarrow> np_dot UB VB))"




section \<open>The uncalibrated factorizer: the whole run\<close>

text \<open>
  IEEE floating point: a division by zero does not raise in numpy, it yields an
  infinity or NaN.  The last step of the factorizer and the colorizer divide by a norm
  that can be zero, so their results are of type \<open>npfloat\<close>.
\<close>

datatype npfloat = Fin real | PosInf | NegInf | NaN

definition np_div :: "real \<Rightarrow> real \<Rightarrow> npfloat" where
  "np_div x y =
     (if y \<noteq> 0 then Fin (x / y)
      else if x = 0 then NaN
      else if 0 < x then PosInf else NegInf)"

type_synonym vec3 = "real \<times> real \<times> real"
type_synonym npvec3 = "npfloat \<times> npfloat \<times> npfloat"

text \<open>
  Line 121, \<open>import pdb; pdb.set_trace()\<close>, stops the run at the debugger's prompt.
  What happens next depends on what is typed at the console: \<open>continue\<close> resumes the
  run, \<open>quit\<close> aborts it with \<open>BdbQuit\<close>, any other command leaves the run at the prompt;
  with nothing (more) typed the run stays suspended.
\<close>

datatype pdb_cmd = Continue | Quit | Other

datatype pdb_result = Resumed | Aborted | Waiting

fun pdb_set_trace :: "pdb_cmd list \<Rightarrow> pdb_result" where
  "pdb_set_trace [] = Waiting"
| "pdb_set_trace (Continue # cs) = Resumed"
| "pdb_set_trace (Quit # cs) = Aborted"
| "pdb_set_trace (Other # cs) = pdb_set_trace cs"

datatype 'a outcome = Returned 'a | Raised error | Suspended

text \<open>
  Lines 67--73: the array \<open>Vt\<close> is made square of side \<open>m = max(M.shape)\<close>, padded with
  zeros, and its diagonal is set to its old diagonal followed by ones.
  \<^verbatim>\<open>
    Vt = sparse.dok_matrix(Vt)
    diag = Vt.diagonal()
    Vt.resize((max(M.shape), max(M.shape)))
    Vt.setdiag(np.hstack((diag, np.ones((1, max(M.shape) - diag.size)).ravel())))
  \<close>
  \<open>np.ones\<close> of a negative size raises \<open>ValueError\<close>.
\<close>

definition pad_Vt :: "nat \<Rightarrow> mat \<Rightarrow> error + mat" where
  "pad_Vt m Vt =
     (let diag = map (\<lambda>i. Vt ! i ! i) [0..<min (length Vt) (ncols Vt)]
      in if m < length diag then Inl ValueError
         else
           let values = diag @ replicate (m - length diag) 1
           in Inr (tabulate2 m m
                (\<lambda>i j. if i = j then values ! i
                       else if i < length Vt \<and> j < ncols Vt then Vt ! i ! j else 0)))"

text \<open>
  Lines 76--77:
  \<^verbatim>\<open>
    delta = np.zeros((f, n))
    delta[:,:delta_vals.size] = np.diag(delta_vals)
  \<close>
  The \<open>k\<close> by \<open>k\<close> array \<open>np.diag(delta_vals)\<close> is assigned to a slice of shape
  \<open>(f, min(n, k))\<close>: numpy accepts it when the shapes agree (\<open>k = f\<close> and \<open>k \<le> n\<close>) or
  when \<open>k = 1\<close> (the single value is broadcast), and raises \<open>ValueError\<close> otherwise.
\<close>

definition make_delta :: "nat \<Rightarrow> nat \<Rightarrow> vec \<Rightarrow> error + mat" where
  "make_delta f n delta_vals =
     (let k = length delta_vals
      in if k = f \<and> k \<le> n then
           Inr (tabulate2 f n (\<lambda>i j. if i = j then delta_vals ! i else 0))
         else if k = 1 then
           Inr (tabulate2 f n (\<lambda>i j. if j = 0 then delta_vals ! 0 else 0))
         else Inl ValueError)"

text \<open>
  Lines 83--84: the first row of \<open>S\<close> is rescaled.
  \<^verbatim>\<open>
    S_norms = np.linalg.norm(S, axis=1)
    S[0,:] *= np.average(S_norms[1:]) / S_norms[0]
  \<close>
  Here the division is the real one: where \<open>S\<close> has a single row or a first row of norm
  zero the program multiplies by NaN or an infinity, and the model's first row is then
  not the program's.  No statement below depends on the values of that row in that case.
\<close>

definition average :: "vec \<Rightarrow> real" where
  "average v = sum_list v / real (length v)"

definition normalise_S :: "mat \<Rightarrow> mat" where
  "normalise_S S =
     (case S of
        [] \<Rightarrow> []
      | row0 # rest \<Rightarrow>
          (let S_norms = norm_axis1 S;
               factor = average (tl S_norms) / hd S_norms
           in map (\<lambda>x. x * factor) row0 # rest))"

text \<open>
  Lines 125--131: the structure, its last rows divided by their column norms, and the
  reshaping into a raster of 3-vectors.  \<open>a.reshape(3, w, h).swapaxes(0, 2)\<close> has shape
  \<open>(h, w, 3)\<close>, and its entry \<open>[c][r][k]\<close> is entry \<open>[k][r * h + c]\<close> of \<open>a\<close>; the reshape
  raises \<open>ValueError\<close> unless \<open>a\<close> has \<open>3 * w * h\<close> entries.
\<close>

definition reshape_swap :: "nat \<Rightarrow> nat \<Rightarrow> 'a list list \<Rightarrow> ('a \<times> 'a \<times> 'a) list list" where
  "reshape_swap w h a =
     tabulate2 h w (\<lambda>c r. (ravel a ! (0 * (w * h) + r * h + c),
                            ravel a ! (1 * (w * h) + r * h + c),
                            ravel a ! (2 * (w * h) + r * h + c)))"

definition divide_columns :: "nat \<Rightarrow> mat \<Rightarrow> npfloat list list" where
  "divide_columns n a =
     (let norms = norm_axis0 n a
      in map (\<lambda>row. map2 (\<lambda>x nf. np_div x nf) row norms) a)"

definition finish :: "nat \<Rightarrow> nat \<Rightarrow> nat \<Rightarrow> mat \<Rightarrow> mat \<Rightarrow> npvec3 list list outcome" where
  "finish n w h A S =
     (case np_dot A S of
        Inl e \<Rightarrow> Raised e
      | Inr structure \<Rightarrow>
          (let normals = divide_columns n (tl structure)
           in if length (ravel normals) = 3 * w * h
              then Returned (reshape_swap w h normals)
              else Raised ValueError))"

text \<open>
  The whole of \<open>photometricStereoWithoutLightning\<close>.  The images come from
  \<open>getImage\<close> (the file system, a parameter); \<open>console\<close> is what is typed at the
  debugger's prompt.  \<open>factor_S\<close> is lines 66--84, where
  \<open>np.sqrt( delta[:4,:] ).dot ( Vt )\<close> is taken as the matrix product with the padded
  array (singular values are not negative, so that the square root is the real one);
  \<open>ambiguity\<close> is lines 99--120.
\<close>

definition factor_S :: "linalg \<Rightarrow> nat \<Rightarrow> nat \<Rightarrow> mat \<Rightarrow> error + mat" where
  "factor_S la f n M =
     (case svd la False M of (U, delta_vals, Vt) \<Rightarrow>
        (case pad_Vt (max f n) Vt of
           Inl e \<Rightarrow> Inl e
         | Inr Vt' \<Rightarrow>
             (case make_delta f n delta_vals of
                Inl e \<Rightarrow> Inl e
              | Inr delta \<Rightarrow>
                  (case np_dot (map (map sqrt) (take 4 delta)) Vt' of
                     Inl e \<Rightarrow> Inl e
                   | Inr S \<Rightarrow> Inr (normalise_S S)))))"

definition ambiguity :: "linalg \<Rightarrow> mat \<Rightarrow> error + mat" where
  "ambiguity la Q =
     (case svd la True Q of (UQ, SQ, VQ) \<Rightarrow>
        (case select_b VQ of
           Inl e \<Rightarrow> Inl e
         | Inr b \<Rightarrow>
             (case assemble_B b of
                Inl e \<Rightarrow> Inl e
              | Inr B \<Rightarrow> construct_A la B)))"

definition photometricStereoWithoutLightning ::
  "linalg \<Rightarrow> pdb_cmd list \<Rightarrow> (string \<Rightarrow> mat) \<Rightarrow> string list \<Rightarrow> npvec3 list list outcome" where
  "photometricStereoWithoutLightning la console getImage images_filenames =
     (let images = map getImage images_filenames;
          f = length images_filenames
      in case images of
           [] \<Rightarrow> Raised IndexError
         | image0 # _ \<Rightarrow>
             (let n = length (ravel image0)
              in case vstack (map ravel images) of
                   Inl e \<Rightarrow> Raised e
                 | Inr M \<Rightarrow>
                     (case factor_S la f n M of
                        Inl e \<Rightarrow> Raised e
                      | Inr S \<Rightarrow>
                          (case construct_Q n S of
                             Inl e \<Rightarrow> Raised e
                           | Inr Q \<Rightarrow>
                               (case ambiguity la Q of
                                  Inl e \<Rightarrow> Raised e
                                | Inr A \<Rightarrow>
                                    (case pdb_set_trace console of
                                       Waiting \<Rightarrow> Suspended
                                     | Aborted \<Rightarrow> Raised BdbQuit
                                     | Resumed \<Rightarrow>
                                         finish n (length image0) (ncols image0) A S))))))"


section \<open>The calibrated solver\<close>

text \<open>
  \<open>photometricStereo\<close>, lines 34--50.  The lighting file is a dictionary from file
  names to light directions.
  \<^verbatim>\<open>
    I = np.vstack(x.ravel() for x in images)
    output = np.zeros((3, I.shape[1]))
    N = np.vstack(lightning[x] for x in images_filenames)
    N_i = np.linalg.pinv(N)
    rho = np.linalg.norm(N_i.dot( I ), axis=0)
    I = I / rho
    normals, residual, rank, s = np.linalg.lstsq(N, I[:, rho != 0].reshape(n, -1))
    output[:,rho != 0] = normals
    w, h = images[0].shape
    output = output.reshape(3, w, h).swapaxes(0, 2)
  \<close>
  \<open>I / rho\<close> divides every column by its albedo.  In a column of albedo zero the
  program's quotient is an infinity or NaN and the model's is the real quotient; the
  next line drops exactly these columns, so that the value is never read.
\<close>

fun lookup_rows :: "(string \<rightharpoonup> vec) \<Rightarrow> string list \<Rightarrow> error + vec list" where
  "lookup_rows lightning [] = Inr []"
| "lookup_rows lightning (x # xs) =
     (case lightning x of
        None \<Rightarrow> Inl KeyError
      | Some l \<Rightarrow>
          (case lookup_rows lightning xs of Inl e \<Rightarrow> Inl e | Inr ls \<Rightarrow> Inr (l # ls)))"

definition divide_by_rho :: "mat \<Rightarrow> vec \<Rightarrow> mat" where
  "divide_by_rho I rho = map (\<lambda>row. map2 (\<lambda>x r. x / r) row rho) I"

text \<open>Boolean-mask selection of the entries of a row, \<open>row[mask]\<close>, and the assignment
  \<open>out[mask] = values\<close>.\<close>

fun select_mask :: "bool list \<Rightarrow> 'a list \<Rightarrow> 'a list" where
  "select_mask (k # ks) (x # xs) = (if k then x # select_mask ks xs else select_mask ks xs)"
| "select_mask _ _ = []"

fun assign_mask :: "bool list \<Rightarrow> 'a list \<Rightarrow> 'a list \<Rightarrow> 'a list" where
  "assign_mask (True # ks) (v # vs) (x # out) = v # assign_mask ks vs out"
| "assign_mask (False # ks) vs (x # out) = x # assign_mask ks vs out"
| "assign_mask _ _ out = out"

definition count_true :: "bool list \<Rightarrow> nat" where
  "count_true ks = length (filter (\<lambda>k. k) ks)"

text \<open>\<open>output[:,rho != 0] = normals\<close>: \<open>normals\<close> must have the shape of the selection,
  3 rows and one column per kept pixel (a single row is broadcast to the three).\<close>

definition assign_columns :: "bool list \<Rightarrow> mat \<Rightarrow> mat \<Rightarrow> error + mat" where
  "assign_columns keep normals output =
     (let rows = (if length normals = 1 then replicate 3 (hd normals) else normals)
      in if shape2 3 (count_true keep) rows
         then Inr (map2 (\<lambda>vs out. assign_mask keep vs out) rows output)
         else Inl ValueError)"


definition solve_normals :: "linalg \<Rightarrow> mat \<Rightarrow> mat \<Rightarrow> error + mat" where
  "solve_normals la N I =
     (case np_dot (pinv la N) I of
        Inl e \<Rightarrow> Inl e
      | Inr NiI \<Rightarrow>
          (let rho = norm_axis0 (ncols I) NiI;
               I' = divide_by_rho I rho;
               keep = map (\<lambda>r. r \<noteq> 0) rho;
               normals = lstsq la N (map (select_mask keep) I')
           in assign_columns keep normals (replicate 3 (replicate (ncols I) 0))))"

definition photometricStereo ::
  "linalg \<Rightarrow> (string \<Rightarrow> mat) \<Rightarrow> (string \<rightharpoonup> vec) \<Rightarrow> string list \<Rightarrow> error + vec3 list list" where
  "photometricStereo la getImage lightning images_filenames =
     (let images = map getImage images_filenames
      in case vstack (map ravel images) of
           Inl e \<Rightarrow> Inl e
         | Inr I \<Rightarrow>
             (case lookup_rows lightning images_filenames of
                Inl e \<Rightarrow> Inl e
              | Inr ls \<Rightarrow>
                  (case vstack ls of
                     Inl e \<Rightarrow> Inl e
                   | Inr N \<Rightarrow>
                       (case solve_normals la N I of
                          Inl e \<Rightarrow> Inl e
                        | Inr output \<Rightarrow>
                            Inr (reshape_swap (length (hd images)) (ncols (hd images)) output)))))"

text \<open>The intensity matrix \<open>I\<close> (one row per image, the image flattened) and the
  lighting matrix \<open>N\<close> (one row per image, its light direction) of a run, as the
  docstring of \<open>photometricStereo\<close> names them.\<close>

definition intensity_matrix :: "(string \<Rightarrow> mat) \<Rightarrow> string list \<Rightarrow> mat" where
  "intensity_matrix getImage images_filenames = map (\<lambda>x. ravel (getImage x)) images_filenames"

definition lighting_matrix :: "(string \<rightharpoonup> vec) \<Rightarrow> string list \<Rightarrow> mat" where
  "lighting_matrix lightning images_filenames = map (\<lambda>x. the (lightning x)) images_filenames"

text \<open>The guard of \<open>main\<close> (lines 186--193): what the command line does before any
  reconstruction.\<close>

datatype action = GenerateMap | PrintUsage | Reconstruct

definition main_action :: "bool \<Rightarrow> string option \<Rightarrow> string list \<Rightarrow> action" where
  "main_action generate_map lightning_arg image_arg =
     (if generate_map then GenerateMap
      else if \<not> (lightning_arg \<noteq> None \<and> lightning_arg \<noteq> Some [] \<and> 3 \<le> length image_arg)
      then PrintUsage
      else Reconstruct)"


section \<open>The colorizer and the sphere map\<close>

text \<open>
  \<open>colorizeNormals\<close>, lines 138--143, on an array of shape \<open>(h, w, 3)\<close>:
  \<^verbatim>\<open>
    nf = np.linalg.norm(normals, axis=normals.ndim - 1)
    normals_n = normals / np.dstack((nf, nf, nf))
    color = (normals_n + 1) / 2
  \<close>
\<close>

fun np_add_real :: "npfloat \<Rightarrow> real \<Rightarrow> npfloat" where
  "np_add_real (Fin x) c = Fin (x + c)"
| "np_add_real PosInf c = PosInf"
| "np_add_real NegInf c = NegInf"
| "np_add_real NaN c = NaN"

text \<open>Division of a float by a positive constant.\<close>

fun np_div_pos :: "npfloat \<Rightarrow> real \<Rightarrow> npfloat" where
  "np_div_pos (Fin x) c = Fin (x / c)"
| "np_div_pos PosInf c = PosInf"
| "np_div_pos NegInf c = NegInf"
| "np_div_pos NaN c = NaN"

definition norm3 :: "vec3 \<Rightarrow> real" where
  "norm3 v = (case v of (x, y, z) \<Rightarrow> sqrt (\<bar>x\<bar>\<^sup>2 + \<bar>y\<bar>\<^sup>2 + \<bar>z\<bar>\<^sup>2))"

definition colorize_px :: "vec3 \<Rightarrow> npvec3" where
  "colorize_px v =
     (case v of (x, y, z) \<Rightarrow>
        let nf = norm3 v;
            normals_n = (np_div x nf, np_div y nf, np_div z nf)
        in (case normals_n of (a, b, c) \<Rightarrow>
              (np_div_pos (np_add_real a 1) 2,
               np_div_pos (np_add_real b 1) 2,
               np_div_pos (np_add_real c 1) 2)))"

definition colorizeNormals :: "vec3 list list \<Rightarrow> npvec3 list list" where
  "colorizeNormals normals = map (map colorize_px) normals"


text \<open>
  \<open>generateNormalMap\<close>, lines 147--161:
  \<^verbatim>\<open>
    x, y = np.meshgrid(np.linspace(-1, 1, dims), np.linspace(-1, 1, dims))
    zsq = 1 - np.power(x, 2) - np.power(y, 2)
    valid = zsq >= 0
    z = np.zeros(x.shape)
    z[valid] = np.sqrt(zsq[valid])
    this_array = np.dstack([x, -y, z]).swapaxes(0, 1)
    color = colorizeNormals(this_array)
    img = color
    img[~valid] = 0
  \<close>
  \<open>meshgrid\<close> gives \<open>x[i][j] = l[j]\<close> and \<open>y[i][j] = l[i]\<close> for the grid line \<open>l\<close>; after
  \<open>swapaxes(0, 1)\<close> the entry \<open>[i][j]\<close> of \<open>this_array\<close> is \<open>(x[j][i], -y[j][i], z[j][i])\<close>.
\<close>

definition linspace :: "real \<Rightarrow> real \<Rightarrow> nat \<Rightarrow> vec" where
  "linspace start stop num =
     (if num = 1 then [start]
      else map (\<lambda>i. start + real i * ((stop - start) / real (num - 1))) [0..<num])"


definition sphere_z :: "nat \<Rightarrow> nat \<Rightarrow> nat \<Rightarrow> real" where
  "sphere_z dims i j =
     (let l = linspace (- 1) 1 dims; x = l ! j; y = l ! i; zsq = 1 - x\<^sup>2 - y\<^sup>2
      in if zsq \<ge> 0 then sqrt zsq else 0)"

text \<open>The array \<open>this_array\<close> of the sphere's normals.\<close>

definition sphere_normals :: "nat \<Rightarrow> vec3 list list" where
  "sphere_normals dims =
     (let l = linspace (- 1) 1 dims
      in tabulate2 dims dims (\<lambda>i j. (l ! i, - (l ! j), sphere_z dims j i)))"



section \<open>Example inputs and library values\<close>

text \<open>
  Concrete values for the library routines, used where a statement is evaluated at a
  concrete input.  \<open>la_isometry\<close> takes the transpose for the pseudoinverse, which is
  the pseudoinverse of every matrix whose rows or whose columns are orthonormal, and
  solves least squares with it; its decompositions are those of an identity matrix.
  The other libraries fix the decompositions of one example each; the properties below
  check, where they use them, that they are decompositions of the example's matrices.
\<close>

definition la_isometry :: linalg where
  "la_isometry =
     \<lparr> pinv = (\<lambda>N. np_transpose (ncols N) N),
       lstsq = (\<lambda>N B. mmul (np_transpose (ncols N) N) B),
       svd = (\<lambda>full a. (identity (length a), replicate (min (length a) (ncols a)) 1,
                        identity (ncols a))),
       eigvals = (\<lambda>a. replicate (length a) 1),
       eig = (\<lambda>a. (replicate (length a) 1, identity (length a))) \<rparr>"





text \<open>Three 1 by 3 images, each lit at one pixel, and three lights along the axes.  Their
  intensity matrix and their lighting matrix are identity matrices, of which
  \<open>la_isometry\<close> returns the decompositions and the pseudoinverse.\<close>

definition images_unit :: "string \<Rightarrow> mat" where
  "images_unit name =
     (if name = ''0.png'' then [[1, 0, 0]]
      else if name = ''1.png'' then [[0, 1, 0]]
      else [[0, 0, 1]])"

definition lights_axes :: "string \<rightharpoonup> vec" where
  "lights_axes = map_of [(''0.png'', [1, 0, 0]), (''1.png'', [0, 1, 0]), (''2.png'', [0, 0, 1])]"

text \<open>Three 1 by 2 images: the first pixel has the intensities \<open>3, 0, 4\<close>, the second is
  dark in every image.\<close>

definition images_axes :: "string \<Rightarrow> mat" where
  "images_axes name =
     (if name = ''0.png'' then [[3, 0]]
      else if name = ''1.png'' then [[0, 0]]
      else [[4, 0]])"

text \<open>
  Four 1 by 5 images \<open>(16,0,0,0,0)\<close>, \<open>(0,9,0,0,0)\<close>, \<open>(0,0,4,0,0)\<close>, \<open>(0,0,0,0,1)\<close>, with the
  values of the library routines along the run: the singular value decomposition of
  the intensity matrix, that of \<open>Q_diag\<close>, the eigenvalues of the matrix \<open>B_diag\<close> and the
  eigendecomposition of \<open>- B_diag\<close>.
\<close>

definition images_diag :: "string \<Rightarrow> mat" where
  "images_diag name =
     (if name = ''0.png'' then [[16, 0, 0, 0, 0]]
      else if name = ''1.png'' then [[0, 9, 0, 0, 0]]
      else if name = ''2.png'' then [[0, 0, 4, 0, 0]]
      else [[0, 0, 0, 0, 1]])"

definition M_diag :: mat where
  "M_diag = [[16, 0, 0, 0, 0], [0, 9, 0, 0, 0], [0, 0, 4, 0, 0], [0, 0, 0, 0, 1]]"

definition Vt_diag :: mat where
  "Vt_diag = [[1, 0, 0, 0, 0], [0, 1, 0, 0, 0], [0, 0, 1, 0, 0], [0, 0, 0, 0, 1]]"

definition S_diag :: mat where
  "S_diag = [[2, 0, 0, 0, 0], [0, 3, 0, 0, 0], [0, 0, 2, 0, 0], [0, 0, 0, 0, 1]]"

definition Q_diag :: mat where
  "Q_diag = [[4, 0, 0, 0, 0, 0, 0, 0, 0, 0],
             [0, 9, 0, 0, 0, 0, 0, 0, 0, 0],
             [0, 0, 4, 0, 0, 0, 0, 0, 0, 0],
             [0, 0, 0, 0, 0, 0, 0, 0, 0, 0],
             [0, 0, 0, 2, 0, 0, 0, 0, 0, 0]]"

definition U_Q_diag :: mat where
  "U_Q_diag = [[0, 1, 0, 0, 0], [1, 0, 0, 0, 0], [0, 0, 1, 0, 0], [0, 0, 0, 0, 1], [0, 0, 0, 1, 0]]"

definition Vh_Q_diag :: mat where
  "Vh_Q_diag = [[0, 1, 0, 0, 0, 0, 0, 0, 0, 0],
                [1, 0, 0, 0, 0, 0, 0, 0, 0, 0],
                [0, 0, 1, 0, 0, 0, 0, 0, 0, 0],
                [0, 0, 0, 1, 0, 0, 0, 0, 0, 0],
                [0, 0, 0, 0, 1, 0, 0, 0, 0, 0],
                [0, 0, 0, 0, 0, 1, 0, 0, 0, 0],
                [0, 0, 0, 0, 0, 0, 1, 0, 0, 0],
                [0, 0, 0, 0, 0, 0, 0, 1, 0, 0],
                [0, 0, 0, 0, 0, 0, 0, 0, 1, 0],
                [0, 0, 0, 0, 0, 0, 0, 0, 0, 1]]"

definition B_diag :: mat where
  "B_diag = [[0, 0, 0, 0], [0, 0, 0, 0], [0, 0, 0, 1], [0, 0, 1, 0]]"

definition W_diag :: mat where
  "W_diag = [[0, 0, 1, 0], [0, 0, 0, 1],
             [1 / sqrt 2, 1 / sqrt 2, 0, 0], [- (1 / sqrt 2), 1 / sqrt 2, 0, 0]]"

definition la_diag :: linalg where
  "la_diag = la_isometry
     \<lparr> svd := (\<lambda>full a.
          if full then (U_Q_diag, [9, 4, 4, 2, 0], Vh_Q_diag)
          else (identity 4, [16, 9, 4, 1], Vt_diag)),
       eigvals := (\<lambda>a. [1, - 1, 0, 0]),
       eig := (\<lambda>a. ([1, - 1, 0, 0], W_diag)) \<rparr>"

text \<open>
  Four 2 by 2 images, 7 at one pixel each and 3 elsewhere: the intensity matrix is
  \<open>M_had = 4 I + 3 J\<close>, with the singular values \<open>16, 4, 4, 4\<close>.  \<open>H_half\<close> is half the
  4 by 4 Hadamard matrix, orthogonal and symmetric: \<open>M_had = H_half \<Sigma> H_half\<close>.  The
  normalised pseudo-shape is the Hadamard matrix \<open>S_had\<close>, and \<open>Q_had\<close> the matrix of the
  quadratic constraints as the code builds it, with the singular value decomposition
  \<open>Q_had = U \<Sigma> Vh\<close> for \<open>U = H_half\<close>, the singular values \<open>s_had\<close> and \<open>Vh = Vh_had\<close>.
\<close>

definition images_had :: "string \<Rightarrow> mat" where
  "images_had name =
     (if name = ''0.png'' then [[7, 3], [3, 3]]
      else if name = ''1.png'' then [[3, 7], [3, 3]]
      else if name = ''2.png'' then [[3, 3], [7, 3]]
      else [[3, 3], [3, 7]])"

definition M_had :: mat where
  "M_had = [[7, 3, 3, 3], [3, 7, 3, 3], [3, 3, 7, 3], [3, 3, 3, 7]]"

definition H_half :: mat where
  "H_half = [[1/2, 1/2, 1/2, 1/2], [1/2, - (1/2), 1/2, - (1/2)],
             [1/2, 1/2, - (1/2), - (1/2)], [1/2, - (1/2), - (1/2), 1/2]]"

definition S_had :: mat where
  "S_had = [[1, 1, 1, 1], [1, - 1, 1, - 1], [1, 1, - 1, - 1], [1, - 1, - 1, 1]]"

definition Q_had :: mat where
  "Q_had = [[1, 1, 1, 1, 1, 1, 1, 1, 1, 1],
            [1, 1, 1, 1, - 1, 1, - 1, - 1, 1, - 1],
            [1, 1, 1, 1, 1, - 1, - 1, - 1, - 1, 1],
            [1, 1, 1, 1, - 1, - 1, 1, 1, - 1, - 1]]"

definition s_had :: vec where
  "s_had = [4, 2 * sqrt 2, 2 * sqrt 2, 2 * sqrt 2]"

definition Vh_had :: mat where
  "Vh_had =
     [[1/2, 1/2, 1/2, 1/2, 0, 0, 0, 0, 0, 0],
      [0, 0, 0, 0, 1 / sqrt 2, 0, 0, 0, 0, 1 / sqrt 2],
      [0, 0, 0, 0, 0, 1 / sqrt 2, 0, 0, 1 / sqrt 2, 0],
      [0, 0, 0, 0, 0, 0, 1 / sqrt 2, 1 / sqrt 2, 0, 0],
      [1/2, - (1/2), 1/2, - (1/2), 0, 0, 0, 0, 0, 0],
      [1/2, 1/2, - (1/2), - (1/2), 0, 0, 0, 0, 0, 0],
      [1/2, - (1/2), - (1/2), 1/2, 0, 0, 0, 0, 0, 0],
      [0, 0, 0, 0, 1 / sqrt 2, 0, 0, 0, 0, - (1 / sqrt 2)],
      [0, 0, 0, 0, 0, 1 / sqrt 2, 0, 0, - (1 / sqrt 2), 0],
      [0, 0, 0, 0, 0, 0, 1 / sqrt 2, - (1 / sqrt 2), 0, 0]]"

definition la_had :: linalg where
  "la_had = la_isometry
     \<lparr> svd := (\<lambda>full a.
          if full then (H_half, s_had, Vh_had) else (H_half, [16, 4, 4, 4], H_half)) \<rparr>"

text \<open>The product of a matrix and a vector.\<close>

definition mat_vec :: "mat \<Rightarrow> vec \<Rightarrow> vec" where
  "mat_vec a v = map (\<lambda>row. dot row v) a"


section \<open>Arrays: shapes and entries\<close>


lemma shape2_length: "shape2 r c a \<Longrightarrow> length a = r"
  by (simp add: shape2_def)

lemma shape2_ncols: "shape2 r c a \<Longrightarrow> 0 < r \<Longrightarrow> ncols a = c"
  by (cases a) (auto simp: shape2_def ncols_def)

lemma shape2_tabulate2: "shape2 r c (tabulate2 r c f)"
  by (simp add: shape2_def tabulate2_def list_all_length)

lemma length_tabulate2 [simp]: "length (tabulate2 r c f) = r"
  by (simp add: tabulate2_def)

lemma length_tabulate2_row [simp]: "i < r \<Longrightarrow> length (tabulate2 r c f ! i) = c"
  by (simp add: tabulate2_def)

lemma tabulate2_nth: "i < r \<Longrightarrow> j < c \<Longrightarrow> tabulate2 r c f ! i ! j = f i j"
  by (simp add: tabulate2_def)



lemma length_col [simp]: "length (col j a) = length a"
  by (simp add: col_def)

lemma length_mmul [simp]: "length (mmul a b) = length a"
  by (simp add: mmul_def)



lemma shape2_mmul:
  assumes "shape2 r k a" "shape2 k c b" "0 < k"
  shows "shape2 r c (mmul a b)"
  using assms by (simp add: shape2_def mmul_def list_all_length shape2_ncols [OF assms(2)])


lemma shape2_np_transpose: "shape2 c (length a) (np_transpose c a)"
  by (simp add: shape2_def np_transpose_def list_all_length)

lemma length_concat_rect: "shape2 r c a \<Longrightarrow> length (concat a) = r * c"
proof (induction a arbitrary: r)
  case Nil
  then show ?case by (simp add: shape2_def)
next
  case (Cons row a)
  then have "shape2 (length a) c a" "length row = c" "r = Suc (length a)"
    by (auto simp: shape2_def)
  with Cons.IH [of "length a"] show ?case by simp
qed


lemma sqrt_4: "sqrt 4 = 2"
  by (rule real_sqrt_unique) simp_all

lemma sqrt_9: "sqrt 9 = 3"
  by (rule real_sqrt_unique) simp_all

lemma sqrt_16: "sqrt 16 = 4" by (rule real_sqrt_unique) simp_all


lemma sqrt2_le: "sqrt 2 \<le> 2"
  by (rule real_le_lsqrt) simp_all

lemmas eval_arrays =
  mmul_def np_dot_def np_transpose_def np_diag_def identity_def tabulate2_def dot_def col_def
  ncols_def shape2_def upt_rec

lemmas eval_more = eval_arrays norm_vec_def norm_axis0_def norm_axis1_def ravel_def vstack_def

lemma la_isometry_simps:
  "pinv la_isometry N = np_transpose (ncols N) N"
  "lstsq la_isometry N B = mmul (np_transpose (ncols N) N) B"
  "svd la_isometry full a =
     (identity (length a), replicate (min (length a) (ncols a)) 1, identity (ncols a))"
  by (simp_all add: la_isometry_def)


section \<open>The quadratic constraints\<close>

lemma shape2_4E:
  assumes "shape2 4 n S"
  obtains r0 r1 r2 r3 where "S = [r0, r1, r2, r3]"
    and "length r0 = n" and "length r1 = n" and "length r2 = n" and "length r3 = n"
proof -
  from assms have l: "length S = 4" and a: "list_all (\<lambda>row. length row = n) S"
    by (simp_all add: shape2_def)
  from l obtain r0 r1 r2 r3 where S: "S = [r0, r1, r2, r3]"
    by (auto simp: length_Suc_conv numeral_eq_Suc)
  with a that show thesis by simp
qed

lemma doubled_nth:
  assumes "j < length row"
  shows "(take k row @ map (\<lambda>x. x * 2) (drop k row)) ! j =
    (if j < k then row ! j else row ! j * (2::real))"
  using assms by (auto simp: nth_append min_def)

text \<open>What the code computes, for every pseudo-shape \<open>S\<close> of 4 rows and \<open>n\<close> columns: the
  row of pixel \<open>j\<close> holds the ten products, none of them doubled when \<open>j < 4\<close> and all
  ten of them doubled when \<open>j \<ge> 4\<close>.\<close>

lemma construct_Q_row:
  assumes S: "shape2 4 n S" and j: "j < n"
  shows "\<exists>Q. construct_Q n S = Inr Q \<and> length Q = n \<and>
     Q ! j = map (\<lambda>x. (if j < 4 then 1 else 2) * x)
               (products_row (S ! 0 ! j) (S ! 1 ! j) (S ! 2 ! j) (S ! 3 ! j))"
proof -
  from S obtain r0 r1 r2 r3 where S': "S = [r0, r1, r2, r3]"
    and len: "length r0 = n" "length r1 = n" "length r2 = n" "length r3 = n"
    by (rule shape2_4E)
  show ?thesis
    using j len
    by (simp add: S' construct_Q_def np_take_def mul_elementwise_def double_columns_from_def
        np_transpose_def products_row_def doubled_nth)
qed

text \<open>
  Claim C2, on the code.  The claim is the comment of the source (lines 88--89): the row
  of a column \<open>q\<close> is \<open>spec_Q_row q\<close>, the six off-diagonal products doubled.  Line 93,
  \<open>Q[:,4:] *= 2\<close>, is executed before the transposition, when \<open>Q\<close> has one \<^emph>\<open>column\<close> per
  pixel: it doubles all ten entries of the pixels from the fifth on and nothing for the
  first four pixels.

  Two runs.  The pseudo-shape of four 2 by 2 images (7 at one pixel each, 3 elsewhere)
  is the Hadamard matrix below: its four rows of \<open>Q\<close> have no entry doubled.  The
  pseudo-shape of the four 1 by 5 images \<open>(16,0,0,0,0)\<close>, \<open>(0,9,0,0,0)\<close>, \<open>(0,0,4,0,0)\<close>,
  \<open>(0,0,0,0.6,0.8)\<close> has a fifth pixel \<open>q = (0,0,0,0.8)\<close>: the square \<open>q\<^sub>4\<^sup>2 = 0.64\<close> is
  doubled to \<open>1.28\<close>.
\<close>

theorem construct_Q_doubles_pixels_not_products:
  "construct_Q 4 [[1, 1, 1, 1], [1, - 1, 1, - 1], [1, 1, - 1, - 1], [1, - 1, - 1, 1]] =
     Inr [[1, 1, 1, 1, 1, 1, 1, 1, 1, 1],
          [1, 1, 1, 1, - 1, 1, - 1, - 1, 1, - 1],
          [1, 1, 1, 1, 1, - 1, - 1, - 1, - 1, 1],
          [1, 1, 1, 1, - 1, - 1, 1, 1, - 1, - 1]] \<and>
   spec_Q_row 1 1 1 1 = [1, 1, 1, 1, 2, 2, 2, 2, 2, 2] \<and>
   construct_Q 5 [[2, 0, 0, 0, 0], [0, 3, 0, 0, 0], [0, 0, 2, 0, 0], [0, 0, 0, 3/5, 4/5]] =
     Inr [[4, 0, 0, 0, 0, 0, 0, 0, 0, 0],
          [0, 9, 0, 0, 0, 0, 0, 0, 0, 0],
          [0, 0, 4, 0, 0, 0, 0, 0, 0, 0],
          [0, 0, 0, 9/25, 0, 0, 0, 0, 0, 0],
          [0, 0, 0, 32/25, 0, 0, 0, 0, 0, 0]] \<and>
   spec_Q_row 0 0 0 (4/5) = [0, 0, 0, 16/25, 0, 0, 0, 0, 0, 0]"
  by (simp add: construct_Q_def np_take_def mul_elementwise_def double_columns_from_def
      np_transpose_def spec_Q_row_def upt_rec)


section \<open>The vector b and the symmetric matrix B\<close>

lemma assemble_B_explicit:
  assumes "length b = 10"
  shows "assemble_B b =
    Inr [[b ! 0, b ! 4, b ! 5, b ! 6],
         [b ! 4, b ! 1, b ! 7, b ! 8],
         [b ! 5, b ! 7, b ! 2, b ! 9],
         [b ! 6, b ! 8, b ! 9, b ! 3]]"
  using assms by (simp add: assemble_B_def np_take_def reshape2_def upt_rec)

lemma assemble_B_symmetric_vector:
  assumes "length b = 10"
  shows "\<exists>B. assemble_B b = Inr B \<and> shape2 4 4 B \<and> np_transpose 4 B = B"
  using assms
  by (simp add: assemble_B_explicit shape2_def np_transpose_def upt_rec)

lemma select_b_length:
  assumes "shape2 10 10 VQ"
  shows "\<exists>b. select_b VQ = Inr b \<and> length b = 10"
proof -
  have "list_all (\<lambda>row. 9 < length row) VQ"
    using assms by (simp add: shape2_def list_all_length)
  then show ?thesis
    using assms by (simp add: select_b_def shape2_def)
qed

text \<open>
  Claim C10.  The singular value decomposition of \<open>Q\<close>, an array of 10 columns, returns a
  10 by 10 array \<open>VQ\<close>.  For every such array, lines 100--104 succeed, and the 4 by 4
  matrix \<open>B\<close> they assemble equals its transpose: each off-diagonal pair is read from
  the same element of \<open>b\<close>.  (The functions are polymorphic in the entries: nothing here
  depends on the arithmetic.)
\<close>

theorem assemble_B_symmetric:
  assumes "shape2 10 10 VQ"
  shows "\<exists>b B. select_b VQ = Inr b \<and> assemble_B b = Inr B \<and> shape2 4 4 B \<and>
               np_transpose 4 B = B"
  using select_b_length [OF assms] assemble_B_symmetric_vector by blast

theorem assemble_B_symmetric_witness:
  "shape2 10 10 Vh_had \<and>
   select_b Vh_had = Inr [0, 1 / sqrt 2, 0, 0, 0, 0, 0, - (1 / sqrt 2), 0, 0] \<and>
   assemble_B [0, 1 / sqrt 2, 0, 0, 0, 0, 0, - (1 / sqrt 2), 0, 0] =
     Inr [[0, 0, 0, 0], [0, 1 / sqrt 2, - (1 / sqrt 2), 0],
          [0, - (1 / sqrt 2), 0, 0], [0, 0, 0, 0]] \<and>
   np_transpose 4 [[0, 0, 0, 0], [0, 1 / sqrt 2, - (1 / sqrt 2), 0],
                   [0, - (1 / sqrt 2), 0, 0], [0, 0, 0, 0]] =
     [[0, 0, 0, 0], [0, 1 / sqrt 2, - (1 / sqrt 2), 0], [0, - (1 / sqrt 2), 0, 0], [0, 0, 0, 0]]"
proof -
  have sh: "shape2 10 10 Vh_had"
    by (simp add: shape2_def Vh_had_def)
  have b: "select_b Vh_had = Inr [0, 1 / sqrt 2, 0, 0, 0, 0, 0, - (1 / sqrt 2), 0, 0]"
    by (simp add: select_b_def Vh_had_def)
  have B: "assemble_B [0, 1 / sqrt 2, 0, 0, 0, 0, 0, - (1 / sqrt 2), 0, 0] =
     Inr [[0, 0, 0, 0], [0, 1 / sqrt 2, - (1 / sqrt 2), 0],
          [0, - (1 / sqrt 2), 0, 0], [0, 0, 0, 0]]"
    by (simp add: assemble_B_explicit)
  from assemble_B_symmetric [OF sh] b B
  have "np_transpose 4 [[0, 0, 0, 0], [0, 1 / sqrt 2, - (1 / sqrt 2), 0],
                        [0, - (1 / sqrt 2), 0, 0], [0, 0, 0, 0]] =
     [[0, 0, 0, 0], [0, 1 / sqrt 2, - (1 / sqrt 2), 0], [0, - (1 / sqrt 2), 0, 0], [0, 0, 0, 0]]"
    by auto
  with sh b B show ?thesis by blast
qed

lemma had_M: "is_svd 4 4 M_had (H_half, [16, 4, 4, 4], H_half)"
  by (simp add: is_svd_def orthogonal_def diag_rect_def M_had_def H_half_def eval_arrays)

lemma had_factor: "factor_S la_had 4 4 M_had = Inr S_had"
  by (simp add: factor_S_def la_had_def la_isometry_def pad_Vt_def make_delta_def normalise_S_def
      average_def Let_def eval_more sqrt_4 sqrt_16 H_half_def M_had_def S_had_def)

lemma had_Q: "construct_Q 4 S_had = Inr Q_had"
  by (simp add: construct_Q_def np_take_def mul_elementwise_def double_columns_from_def
      np_transpose_def Q_had_def S_had_def upt_rec)

lemma orth_Vh: "orthogonal 10 Vh_had"
  by (simp add: orthogonal_def Vh_had_def eval_arrays)

lemma orth_U: "orthogonal 4 H_half"
  by (simp add: orthogonal_def H_half_def eval_arrays)

lemma prod_had: "mmul (mmul H_half (diag_rect 4 10 s_had)) Vh_had = Q_had"
  by (simp add: diag_rect_def s_had_def Vh_had_def H_half_def Q_had_def eval_arrays)

lemma had_svd: "is_svd 4 10 Q_had (H_half, s_had, Vh_had)"
  using orth_Vh orth_U prod_had sqrt2_le
  by (simp add: is_svd_def s_had_def)

lemma had_b: "select_b Vh_had = Inr [0, 1 / sqrt 2, 0, 0, 0, 0, 0, - (1 / sqrt 2), 0, 0]"
  by (simp add: select_b_def Vh_had_def)

lemma had_Qb: "mat_vec Q_had [0, 1 / sqrt 2, 0, 0, 0, 0, 0, - (1 / sqrt 2), 0, 0] = [0, sqrt 2, sqrt 2, 0]"
  by (simp add: mat_vec_def Q_had_def dot_def real_div_sqrt)

lemma had_Qv: "mat_vec Q_had (Vh_had ! 9) = [0, 0, 0, 0]"
  by (simp add: mat_vec_def Q_had_def Vh_had_def dot_def)

lemma had_norms: "norm_vec [0, sqrt 2, sqrt 2, 0] = 2" "norm_vec [0, 1 / sqrt 2, 0, 0, 0, 0, 0, - (1 / sqrt 2), 0, 0] = 1"
   "norm_vec (Vh_had ! 9) = 1"
  by (simp_all add: norm_vec_def sqrt_4 Vh_had_def power_divide)

text \<open>
  Claim C3, on the code.  \<open>np.linalg.svd\<close> returns \<open>(U, s, Vh)\<close>: the right-singular
  vectors are the \<^emph>\<open>rows\<close> of the third array, and the one of the smallest singular value
  (or of the null space) is its last row, \<open>VQ[9,:]\<close>.  Line 100 takes \<open>VQ[:,9]\<close>, the last
  \<^emph>\<open>column\<close>: the tenth components of all ten right-singular vectors.

  The run on the four 2 by 2 images of \<open>images_had\<close>: the pseudo-shape is \<open>S_had\<close>, the
  constraints are \<open>Q_had\<close>, and \<open>(H_half, s_had, Vh_had)\<close> is a singular value
  decomposition of \<open>Q_had\<close>.  The vector the code selects is a unit vector \<open>b\<close> with
  \<open>|Q b| = 2\<close>; the last row of \<open>Vh\<close> is a unit vector \<open>v\<close> with \<open>|Q v| = 0\<close>.  So \<open>b\<close> is
  neither the last right-singular vector nor a minimiser of \<open>|Q b|\<close> over unit vectors.
\<close>

theorem select_b_takes_a_column:
  "intensity_matrix images_had [''0.png'', ''1.png'', ''2.png'', ''3.png''] = M_had \<and>
   is_svd 4 4 M_had (H_half, [16, 4, 4, 4], H_half) \<and>
   factor_S la_had 4 4 M_had = Inr S_had \<and>
   construct_Q 4 S_had = Inr Q_had \<and>
   is_svd 4 10 Q_had (svd la_had True Q_had) \<and>
   svd la_had True Q_had = (H_half, s_had, Vh_had) \<and>
   select_b Vh_had = Inr [0, 1 / sqrt 2, 0, 0, 0, 0, 0, - (1 / sqrt 2), 0, 0] \<and>
   Vh_had ! 9 = [0, 0, 0, 0, 0, 0, 1 / sqrt 2, - (1 / sqrt 2), 0, 0] \<and>
   norm_vec [0, 1 / sqrt 2, 0, 0, 0, 0, 0, - (1 / sqrt 2), 0, 0] = 1 \<and>
   norm_vec (mat_vec Q_had [0, 1 / sqrt 2, 0, 0, 0, 0, 0, - (1 / sqrt 2), 0, 0]) = 2 \<and>
   norm_vec (Vh_had ! 9) = 1 \<and>
   norm_vec (mat_vec Q_had (Vh_had ! 9)) = 0"
proof -
  have sv: "svd la_had True Q_had = (H_half, s_had, Vh_had)"
    by (simp add: la_had_def)
  have row: "Vh_had ! 9 = [0, 0, 0, 0, 0, 0, 1 / sqrt 2, - (1 / sqrt 2), 0, 0]"
    by (simp add: Vh_had_def)
  have z: "norm_vec [0, 0, 0, 0] = 0"
    by (simp add: norm_vec_def)
  have im: "intensity_matrix images_had [''0.png'', ''1.png'', ''2.png'', ''3.png''] = M_had"
    by (simp add: intensity_matrix_def images_had_def ravel_def M_had_def)
  show ?thesis
    using had_M had_factor had_Q had_svd had_b had_norms
    by (simp add: im sv had_Qb had_Qv z) (simp add: row)
qed


section \<open>The matrix A\<close>










section \<open>The run of the factorizer and the debugger\<close>

lemma factor_S_diag: "factor_S la_diag 4 5 M_diag = Inr S_diag"
  by (simp add: factor_S_def la_diag_def la_isometry_def pad_Vt_def make_delta_def normalise_S_def
      average_def Let_def eval_more sqrt_4 sqrt_9 sqrt_16 M_diag_def Vt_diag_def S_diag_def)

lemma construct_Q_diag: "construct_Q 5 S_diag = Inr Q_diag"
  by (simp add: construct_Q_def np_take_def mul_elementwise_def double_columns_from_def
      np_transpose_def Q_diag_def S_diag_def upt_rec)

lemma ambiguity_diag:
  "ambiguity la_diag Q_diag = Inr [[0, 0, 1, 0], [0, 0, 0, 1], [0, 0, 0, 0], [0, 0, 0, 0]]"
proof -
  have ev: "nb_eig_sn_positive [1, - 1, 0, 0] = 1" "nb_eig_sn_negative [1, - 1, 0, 0] = 1"
    by (simp_all add: nb_eig_sn_positive_def nb_eig_sn_negative_def)
  have sb: "select_b Vh_Q_diag = Inr [0, 0, 0, 0, 0, 0, 0, 0, 0, 1]"
    by (simp add: select_b_def Vh_Q_diag_def)
  have A: "construct_A la_diag [[0, 0, 0, 0], [0, 0, 0, 0], [0, 0, 0, 1], [0, 0, 1, 0]] =
      Inr [[0, 0, 1, 0], [0, 0, 0, 1], [0, 0, 0, 0], [0, 0, 0, 0]]"
    by (simp add: construct_A_def separable_branch_def flipped_def la_diag_def la_isometry_def ev)
      (simp add: W_diag_def sqrt_abs_diag_def eval_arrays)
  have sv: "svd la_diag True Q_diag = (U_Q_diag, [9, 4, 4, 2, 0], Vh_Q_diag)"
    by (simp add: la_diag_def)
  show ?thesis
    by (simp add: ambiguity_def sv sb assemble_B_explicit A)
qed

lemma finish_diag:
  "finish 5 1 5 [[0, 0, 1, 0], [0, 0, 0, 1], [0, 0, 0, 0], [0, 0, 0, 0]] S_diag =
   Returned [[(NaN, NaN, NaN)], [(NaN, NaN, NaN)], [(NaN, NaN, NaN)], [(NaN, NaN, NaN)],
             [(Fin 1, Fin 0, Fin 0)]]"
  by (simp add: finish_def divide_columns_def reshape_swap_def np_div_def Let_def eval_more S_diag_def)

text \<open>The values of the library along this run are decompositions of its matrices.\<close>

lemma la_diag_valid:
  "mmul (mmul (identity 4) (np_diag [16, 9, 4, 1])) Vt_diag = M_diag"
  "is_svd 5 10 Q_diag (U_Q_diag, [9, 4, 4, 2, 0], Vh_Q_diag)"
  "mmul (negate B_diag) W_diag = mmul W_diag (np_diag [1, - 1, 0, 0])"
  "orthogonal 4 W_diag"
  by (simp_all add: is_svd_def orthogonal_def diag_rect_def negate_def M_diag_def Vt_diag_def
      Q_diag_def U_Q_diag_def Vh_Q_diag_def B_diag_def W_diag_def eval_arrays)

text \<open>Without a \<open>continue\<close> typed at the debugger's prompt, no run of the factorizer
  returns a field, whatever the images and the library.\<close>

lemma pdb_set_trace_no_continue:
  "list_all (\<lambda>c. c = Other) console \<Longrightarrow> pdb_set_trace console = Waiting"
  by (induction console rule: pdb_set_trace.induct) simp_all

lemma factorizer_suspends:
  assumes "list_all (\<lambda>c. c = Other) console"
  shows "photometricStereoWithoutLightning la console getImage images_filenames = Suspended \<or>
         (\<exists>e. photometricStereoWithoutLightning la console getImage images_filenames = Raised e)"
  using pdb_set_trace_no_continue [OF assms]
  by (simp add: photometricStereoWithoutLightning_def Let_def split: list.splits sum.splits)

text \<open>
  Claim C8, on the code.  The run of the factorizer on the four images of \<open>images_diag\<close>
  passes every step up to line 120 and then stops at the debugger's prompt of line 121:
  with nothing typed, or with commands other than \<open>continue\<close>, it stays suspended, and
  returns its field only once \<open>continue\<close> is typed.  (The calibrated solver has no such
  stop: its model has no console, and its result is a field or an error.)
\<close>

theorem factorizer_stops_at_the_debugger:
  "photometricStereoWithoutLightning la_diag [] images_diag
     [''0.png'', ''1.png'', ''2.png'', ''3.png''] = Suspended \<and>
   photometricStereoWithoutLightning la_diag [Other, Other] images_diag
     [''0.png'', ''1.png'', ''2.png'', ''3.png''] = Suspended \<and>
   photometricStereoWithoutLightning la_diag [Continue] images_diag
     [''0.png'', ''1.png'', ''2.png'', ''3.png''] =
     Returned [[(NaN, NaN, NaN)], [(NaN, NaN, NaN)], [(NaN, NaN, NaN)], [(NaN, NaN, NaN)],
               [(Fin 1, Fin 0, Fin 0)]]"
  using factor_S_diag construct_Q_diag ambiguity_diag finish_diag
  by (simp add: photometricStereoWithoutLightning_def images_diag_def ravel_def vstack_def
      M_diag_def ncols_def eval_nat_numeral)


section \<open>Linear algebra behind the calibrated solver\<close>













section \<open>The calibrated solver\<close>

lemma length_select_mask:
  "length row = length keep \<Longrightarrow> length (select_mask keep row) = count_true keep"
proof (induction keep arbitrary: row)
  case Nil
  then show ?case by (simp add: count_true_def)
next
  case (Cons k ks)
  then obtain x xs where "row = x # xs" by (cases row) auto
  with Cons show ?case by (simp add: count_true_def)
qed






lemma list3: "length xs = 3 \<Longrightarrow> xs = [xs ! 0, xs ! 1, xs ! 2]"
  by (auto simp: length_Suc_conv numeral_3_eq_3)



lemma shape2_divide_by_rho:
  assumes "shape2 n p I" "length rho = p"
  shows "shape2 n p (divide_by_rho I rho)"
  using assms by (simp add: divide_by_rho_def shape2_def list_all_length)


lemma lookup_rows_present:
  assumes "list_all (\<lambda>x. \<exists>l. lightning x = Some l \<and> length l = c) files"
  shows "lookup_rows lightning files = Inr (lighting_matrix lightning files) \<and>
         shape2 (length files) c (lighting_matrix lightning files)"
  using assms
  by (induction files) (auto simp: lighting_matrix_def shape2_def)

lemma vstack_shape: "shape2 n c rows \<Longrightarrow> 0 < n \<Longrightarrow> vstack rows = Inr rows"
  by (cases rows) (auto simp: vstack_def shape2_def list_all_iff)

lemma intensity_matrix_shape:
  assumes "list_all (\<lambda>x. shape2 w h (getImage x)) files"
  shows "shape2 (length files) (w * h) (intensity_matrix getImage files)"
  using assms
  by (induction files) (auto simp: intensity_matrix_def shape2_def ravel_def length_concat_rect)



lemma photometricStereo_unfold:
  assumes files: "images_filenames \<noteq> []"
    and imgs: "list_all (\<lambda>x. shape2 w h (getImage x)) images_filenames"
    and lights: "list_all (\<lambda>x. \<exists>l. lightning x = Some l \<and> length l = 3) images_filenames"
  shows "photometricStereo la getImage lightning images_filenames =
     (case solve_normals la (lighting_matrix lightning images_filenames)
             (intensity_matrix getImage images_filenames) of
        Inl e \<Rightarrow> Inl e
      | Inr output \<Rightarrow>
          Inr (reshape_swap (length (getImage (hd images_filenames)))
                 (ncols (getImage (hd images_filenames))) output))"
proof -
  have n: "0 < length images_filenames" using files by simp
  have I: "vstack (map (ravel \<circ> getImage) images_filenames) =
           Inr (intensity_matrix getImage images_filenames)"
    using vstack_shape [OF intensity_matrix_shape [OF imgs] n]
    by (simp add: intensity_matrix_def comp_def)
  have L: "lookup_rows lightning images_filenames = Inr (lighting_matrix lightning images_filenames)"
    using lookup_rows_present [OF lights] by simp
  have V: "vstack (lighting_matrix lightning images_filenames) =
           Inr (lighting_matrix lightning images_filenames)"
    using lookup_rows_present [OF lights] n by (auto intro: vstack_shape)
  have H: "hd (map getImage images_filenames) = getImage (hd images_filenames)"
    using files by (simp add: hd_map)
  show ?thesis
    unfolding photometricStereo_def Let_def H by (simp add: I L V)
qed




lemma axes_matrices:
  "lighting_matrix lights_axes [''0.png'', ''1.png'', ''2.png''] = [[1, 0, 0], [0, 1, 0], [0, 0, 1]]"
  "intensity_matrix images_axes [''0.png'', ''1.png'', ''2.png''] = [[3, 0], [0, 0], [4, 0]]"
  "lighting_matrix lights_axes [''0.png'', ''1.png''] = [[1, 0, 0], [0, 1, 0]]"
  "intensity_matrix images_unit [''0.png'', ''1.png''] = [[1, 0, 0], [0, 1, 0]]"
  by (simp_all add: lighting_matrix_def intensity_matrix_def lights_axes_def images_axes_def
      images_unit_def ravel_def)




section \<open>The solvers on too few images\<close>

lemma solve_normals_returns:
  assumes N: "shape2 n 3 N" and n: "0 < n" and Ni: "shape2 3 n (pinv la N)"
    and I: "shape2 n p I"
    and L: "\<And>B m. shape2 n m B \<Longrightarrow> shape2 3 m (lstsq la N B)"
  shows "\<exists>outp. solve_normals la N I = Inr outp"
proof -
  define rho where "rho = norm_axis0 p (mmul (pinv la N) I)"
  define keep where "keep = map (\<lambda>r. r \<noteq> 0) rho"
  define B where "B = map (select_mask keep) (divide_by_rho I rho)"
  have ncI: "ncols I = p" using I n by (rule shape2_ncols)
  have lI: "length I = n" using I by (rule shape2_length)
  have lrho: "length rho = p" by (simp add: rho_def norm_axis0_def)
  have lkeep: "length keep = p" by (simp add: keep_def lrho)
  have "shape2 n p (divide_by_rho I rho)" using I lrho by (rule shape2_divide_by_rho)
  then have "shape2 n (count_true keep) B"
    by (simp add: B_def shape2_def list_all_length length_select_mask lkeep)
  then have sX: "shape2 3 (count_true keep) (lstsq la N B)" by (rule L)
  then have lX: "length (lstsq la N B) = 3" by (simp add: shape2_def)
  have dot: "np_dot (pinv la N) I = Inr (mmul (pinv la N) I)"
    using Ni by (simp add: np_dot_def shape2_def lI)
  show ?thesis
    using sX lX
    by (simp add: solve_normals_def dot ncI Let_def rho_def [symmetric] keep_def [symmetric]
        B_def [symmetric] assign_columns_def)
qed

lemma length_normalise_S [simp]: "length (normalise_S S) = length S"
  by (cases S) (simp_all add: normalise_S_def Let_def)

lemma factor_S_rows: "factor_S la f n M = Inr S \<Longrightarrow> length S = min 4 f"
  by (auto simp: factor_S_def make_delta_def np_dot_def Let_def
      split: prod.splits sum.splits if_splits)

lemma factor_S_error: "factor_S la f n M = Inl e \<Longrightarrow> e = ValueError"
  by (auto simp: factor_S_def pad_Vt_def make_delta_def np_dot_def Let_def
      split: prod.splits sum.splits if_splits)

lemma vstack_error: "vstack rows = Inl e \<Longrightarrow> e = ValueError"
  by (auto simp: vstack_def split: list.splits if_splits)

lemma construct_Q_short: "length S < 4 \<Longrightarrow> construct_Q n S = Inl IndexError"
  by (simp add: construct_Q_def np_take_def)

lemma factorizer_too_few_images:
  assumes "length images_filenames < 4"
  shows "photometricStereoWithoutLightning la console getImage images_filenames = Raised IndexError \<or>
         photometricStereoWithoutLightning la console getImage images_filenames = Raised ValueError"
proof (cases images_filenames)
  case Nil
  then show ?thesis by (simp add: photometricStereoWithoutLightning_def)
next
  case (Cons x xs)
  define n where "n = length (ravel (getImage x))"
  show ?thesis
  proof (cases "vstack (map ravel (map getImage images_filenames))")
    case (Inl e)
    with vstack_error [OF Inl] Cons show ?thesis
      by (simp add: photometricStereoWithoutLightning_def Let_def)
  next
    case (Inr M)
    note M = this
    show ?thesis
    proof (cases "factor_S la (length images_filenames) n M")
      case (Inl e)
      with factor_S_error [OF Inl] Cons M show ?thesis
        by (simp add: photometricStereoWithoutLightning_def Let_def n_def)
    next
      case (Inr S)
      from factor_S_rows [OF Inr] assms have "length S < 4" by simp
      then have "construct_Q n S = Inl IndexError" by (rule construct_Q_short)
      with Inr Cons M show ?thesis
        by (simp add: photometricStereoWithoutLightning_def Let_def n_def)
    qed
  qed
qed

lemma unit_run:
  "photometricStereo la_isometry images_unit lights_axes [''0.png'', ''1.png''] =
     Inr [[(1, 0, 0)], [(0, 1, 0)], [(0, 0, 0)]]"
  by (simp add: photometricStereo_def solve_normals_def assign_columns_def
      divide_by_rho_def count_true_def reshape_swap_def lookup_rows.simps
      la_isometry_simps images_unit_def lights_axes_def Let_def eval_more numeral_3_eq_3)

lemma unit_factor:
  "factor_S la_isometry 3 3 [[1, 0, 0], [0, 1, 0], [0, 0, 1]] = Inr [[1, 0, 0], [0, 1, 0], [0, 0, 1]]"
  by (simp add: factor_S_def la_isometry_simps pad_Vt_def make_delta_def normalise_S_def
      average_def Let_def eval_more)

lemma unit_factorizer:
  "photometricStereoWithoutLightning la_isometry [Continue] images_unit
     [''0.png'', ''1.png'', ''2.png''] = Raised IndexError"
  using unit_factor
  by (simp add: photometricStereoWithoutLightning_def images_unit_def ravel_def vstack_def
      construct_Q_short eval_nat_numeral)

text \<open>
  Claim C4, as stated, on the code.  Two images with the lights \<open>(1,0,0)\<close> and \<open>(0,1,0)\<close>:
  fewer than 3 images and a lighting matrix of column rank 2.  The calibrated solver
  raises nothing and returns a field.  Three images: the uncalibrated factorizer fails,
  with \<open>IndexError\<close>, which is not the error the claim names.
\<close>

theorem solvers_raise_no_typed_error:
  "lighting_matrix lights_axes [''0.png'', ''1.png''] = [[1, 0, 0], [0, 1, 0]] \<and>
   \<not> column_rank3 [[1, 0, 0], [0, 1, 0]] \<and>
   penrose 2 3 [[1, 0, 0], [0, 1, 0]] (pinv la_isometry [[1, 0, 0], [0, 1, 0]]) \<and>
   photometricStereo la_isometry images_unit lights_axes [''0.png'', ''1.png''] =
     Inr [[(1, 0, 0)], [(0, 1, 0)], [(0, 0, 0)]] \<and>
   intensity_matrix images_unit [''0.png'', ''1.png'', ''2.png''] = [[1, 0, 0], [0, 1, 0], [0, 0, 1]] \<and>
   is_svd 3 3 [[1, 0, 0], [0, 1, 0], [0, 0, 1]] (svd la_isometry False [[1, 0, 0], [0, 1, 0], [0, 0, 1]]) \<and>
   photometricStereoWithoutLightning la_isometry [Continue] images_unit
     [''0.png'', ''1.png'', ''2.png''] = Raised IndexError"
proof -
  have 1: "\<not> column_rank3 [[1, 0, 0], [0, 1, 0]]"
    by (simp add: column_rank3_def det3_def gram_def eval_arrays)
  have 2: "penrose 2 3 [[1, 0, 0], [0, 1, 0]] (pinv la_isometry [[1, 0, 0], [0, 1, 0]])"
    by (simp add: penrose_def la_isometry_simps eval_arrays)
  have 3: "intensity_matrix images_unit [''0.png'', ''1.png'', ''2.png''] =
      [[1, 0, 0], [0, 1, 0], [0, 0, 1]]"
    by (simp add: intensity_matrix_def images_unit_def ravel_def)
  have 4: "is_svd 3 3 [[1, 0, 0], [0, 1, 0], [0, 0, 1]]
      (svd la_isometry False [[1, 0, 0], [0, 1, 0], [0, 0, 1]])"
    by (simp add: is_svd_def orthogonal_def diag_rect_def la_isometry_simps eval_arrays)
  from 1 2 3 4 unit_run unit_factorizer axes_matrices(3) show ?thesis by blast
qed

text \<open>
  Claim C4, amended.  Neither solver checks the number of images or the rank, and the
  program has no error types of its own.  The calibrated solver, on any positive number
  of images of one shape with a light direction of 3 components each, returns a field
  whenever the library returns arrays of the shapes it documents: also for fewer than 3
  images and for a lighting matrix of rank below 3.  Fewer than 3 images are refused by
  the command line only (\<open>main\<close> does not reconstruct).  The uncalibrated factorizer on
  fewer than 4 images returns no field either: it fails, with the \<open>IndexError\<close> of the
  row selection \<open>np.take\<close> on a pseudo-shape of fewer than 4 rows, or with an earlier
  \<open>IndexError\<close> or \<open>ValueError\<close> of an array operation.
\<close>

theorem solvers_have_no_image_count_check:
  assumes files: "images_filenames \<noteq> []"
    and imgs: "list_all (\<lambda>x. shape2 w h (getImage x)) images_filenames"
    and lights: "list_all (\<lambda>x. \<exists>l. lightning x = Some l \<and> length l = 3) images_filenames"
    and N: "N = lighting_matrix lightning images_filenames"
    and pinv: "shape2 3 (length images_filenames) (pinv la N)"
    and lstsq: "\<forall>B m. shape2 (length images_filenames) m B \<longrightarrow> shape2 3 m (lstsq la N B)"
  shows "(\<exists>field. photometricStereo la getImage lightning images_filenames = Inr field) \<and>
     (length image_arg < 3 \<longrightarrow> main_action generate_map lightning_arg image_arg \<noteq> Reconstruct) \<and>
     (length few_filenames < 4 \<longrightarrow>
        photometricStereoWithoutLightning la console getImage few_filenames = Raised IndexError \<or>
        photometricStereoWithoutLightning la console getImage few_filenames = Raised ValueError)"
proof -
  have n: "0 < length images_filenames" using files by simp
  have sN: "shape2 (length images_filenames) 3 N"
    unfolding N using lookup_rows_present [OF lights] by simp
  have sI: "shape2 (length images_filenames) (w * h) (intensity_matrix getImage images_filenames)"
    using imgs by (rule intensity_matrix_shape)
  obtain outp where "solve_normals la N (intensity_matrix getImage images_filenames) = Inr outp"
    using solve_normals_returns [OF sN n pinv sI] lstsq by blast
  then have "\<exists>field. photometricStereo la getImage lightning images_filenames = Inr field"
    by (simp add: photometricStereo_unfold [OF files imgs lights] N)
  moreover have "length image_arg < 3 \<longrightarrow> main_action generate_map lightning_arg image_arg \<noteq> Reconstruct"
    by (simp add: main_action_def)
  ultimately show ?thesis
    using factorizer_too_few_images [of few_filenames la console getImage] by blast
qed

theorem solvers_have_no_image_count_check_witness:
  "length [''0.png'', ''1.png''] < 3 \<and>
   (\<exists>field. photometricStereo la_isometry images_unit lights_axes [''0.png'', ''1.png''] = Inr field) \<and>
   main_action False (Some ''lights.json'') [''0.png'', ''1.png''] \<noteq> Reconstruct \<and>
   (photometricStereoWithoutLightning la_isometry [] images_unit
      [''0.png'', ''1.png'', ''2.png''] = Raised IndexError \<or>
    photometricStereoWithoutLightning la_isometry [] images_unit
      [''0.png'', ''1.png'', ''2.png''] = Raised ValueError)"
proof -
  let ?files = "[''0.png'', ''1.png'']"
  let ?N = "[[1, 0, 0], [0, 1, 0 :: real]]"
  have N: "?N = lighting_matrix lights_axes ?files"
    by (simp add: axes_matrices)
  have imgs: "list_all (\<lambda>x. shape2 1 3 (images_unit x)) ?files"
    by (simp add: images_unit_def shape2_def)
  have lights: "list_all (\<lambda>x. \<exists>l. lights_axes x = Some l \<and> length l = 3) ?files"
    by (simp add: lights_axes_def)
  have t: "np_transpose (ncols ?N) ?N = [[1, 0], [0, 1], [0, 0]]"
    by (simp add: eval_arrays)
  have pinv: "shape2 3 (length ?files) (pinv la_isometry ?N)"
    by (simp add: la_isometry_simps t) (simp add: shape2_def)
  have lstsq: "\<forall>B m. shape2 (length ?files) m B \<longrightarrow> shape2 3 m (lstsq la_isometry ?N B)"
  proof (intro allI impI)
    fix B :: mat and m
    assume "shape2 (length ?files) m B"
    then have B: "shape2 2 m B" by (simp add: numeral_2_eq_2)
    have "shape2 3 2 [[1, 0], [0, 1], [0, 0 :: real]]" by (simp add: shape2_def)
    then have "shape2 3 m (mmul [[1, 0], [0, 1], [0, 0]] B)"
      using B by (rule shape2_mmul) simp
    then show "shape2 3 m (lstsq la_isometry ?N B)"
      by (simp add: la_isometry_simps t)
  qed
  from solvers_have_no_image_count_check [of ?files 1 3 images_unit lights_axes ?N la_isometry
      ?files False "Some ''lights.json''" "[''0.png'', ''1.png'', ''2.png'']" "[]",
      OF _ imgs lights N pinv lstsq]
  show ?thesis by simp
qed


section \<open>The colorizer\<close>

lemma norm3_zero_iff: "norm3 v = 0 \<longleftrightarrow> v = (0, 0, 0)"
  by (cases v) (auto simp: norm3_def power2_eq_square add_nonneg_eq_0_iff)

lemma colorize_px_zero: "colorize_px (0, 0, 0) = (NaN, NaN, NaN)"
  by (simp add: colorize_px_def norm3_def np_div_def)

text \<open>Every position of zero norm is mapped to NaN in all three channels.\<close>

lemma colorizeNormals_zero_norm:
  assumes "i < length normals" "j < length (normals ! i)" "norm3 (normals ! i ! j) = 0"
  shows "colorizeNormals normals ! i ! j = (NaN, NaN, NaN)"
  using assms by (simp add: colorizeNormals_def norm3_zero_iff colorize_px_zero)

text \<open>
  Claim C6, on the code.  The claim asks for the zero vector at a position of zero norm
  and for no NaN.  The code has no guard: it divides the vector by its norm, \<open>0 / 0\<close>,
  which is NaN in each channel, and \<open>(NaN + 1) / 2\<close> is NaN.  No exception is raised.
  Here a row of two pixels, the first the zero vector.
\<close>

theorem colorizeNormals_zero_vector_is_nan:
  "colorizeNormals [[(0, 0, 0), (0, 0, 2)]] =
     [[(NaN, NaN, NaN), (Fin (1/2), Fin (1/2), Fin 1)]]"
  by (simp add: colorizeNormals_def colorize_px_def norm3_def np_div_def)






section \<open>The sphere map\<close>

lemma linspace_nth:
  "1 < num \<Longrightarrow> i < num \<Longrightarrow> linspace a b num ! i = a + real i * ((b - a) / real (num - 1))"
  by (simp add: linspace_def)

lemma sphere_normals_nth:
  assumes "i < dims" "j < dims"
  shows "sphere_normals dims ! i ! j =
    (linspace (- 1) 1 dims ! i, - (linspace (- 1) 1 dims ! j), sphere_z dims j i)"
  using assms by (simp add: sphere_normals_def Let_def tabulate2_nth)



lemma linspace_600: "i < 600 \<Longrightarrow> linspace (- 1) 1 600 ! i = - 1 + real i * (2 / 599)"
  by (simp add: linspace_nth)

text \<open>The default grid has 600 lines in each direction, an even number: no grid line
  passes through the centre, so that no grid point has the normal \<open>(0, 0, 1)\<close>.\<close>

lemma no_pole_at_600:
  assumes "i < 600" "j < 600"
  shows "sphere_normals 600 ! i ! j \<noteq> (0, 0, 1)"
proof
  assume "sphere_normals 600 ! i ! j = (0, 0, 1)"
  then have "linspace (- 1) 1 600 ! i = 0"
    using assms by (simp add: sphere_normals_nth)
  then have "real i * 2 = 599"
    using assms by (simp add: linspace_600)
  then have "i * 2 = 599"
    by (metis of_nat_eq_iff of_nat_mult of_nat_numeral)
  then show False by presburger
qed





end
